theory Spec2Isabelle
  imports Complex_Main "HOL-Library.Sublist"
begin

section \<open>Data model\<close>

text \<open>
  Python exceptions raised by the drift-detection code and by the library routines it
  calls. The string carried by an error is its message (or the offending key).
\<close>

datatype error =
    ValueError string
  | KeyError string
  | AttributeError string
  | TypeError string
  | FileNotFoundError string

text \<open>
  A cell of a table read from CSV is a number or a piece of text. A \<open>DataFrame\<close> is its
  row index (the row labels) together with its named columns; every column has one cell
  per row label.
\<close>

datatype cell = Num real | Str string

record DataFrame =
  df_index :: "nat list"
  df_columns :: "(string \<times> cell list) list"

text \<open>
  The seven detector dataclasses of \<open>load/drift_detectors\<close>. The constructor arguments
  are the dataclass fields in declaration order: \<open>historical_data\<close>, \<open>recent_data\<close>,
  then the parameters (\<open>alpha\<close>; \<open>bins\<close>, \<open>epsilon\<close>, \<open>threshold\<close>; \<open>threshold\<close>;
  \<open>num_bins\<close>, \<open>threshold\<close>).
\<close>

datatype detector =
    ZTest DataFrame DataFrame real
  | PSICalculator DataFrame DataFrame int real real
  | ChiSquaredTest DataFrame DataFrame real
  | CramersVTest DataFrame DataFrame real
  | KSTest DataFrame DataFrame real
  | CUSUM DataFrame DataFrame real
  | KLDivergence DataFrame DataFrame int real

text \<open>The field defaults written in the dataclass declarations.\<close>

definition default_alpha :: real where "default_alpha = 5 / 100"
definition default_bins :: int where "default_bins = 10"
definition default_epsilon :: real where "default_epsilon = 1 / 100000"
definition default_threshold :: real where "default_threshold = 1 / 10"

text \<open>Calling a dataclass with the two datasets only leaves every parameter at its default.\<close>

definition new_ZTest :: "DataFrame \<Rightarrow> DataFrame \<Rightarrow> detector" where
  "new_ZTest h r = ZTest h r default_alpha"

definition new_PSICalculator :: "DataFrame \<Rightarrow> DataFrame \<Rightarrow> detector" where
  "new_PSICalculator h r = PSICalculator h r default_bins default_epsilon default_threshold"

definition new_ChiSquaredTest :: "DataFrame \<Rightarrow> DataFrame \<Rightarrow> detector" where
  "new_ChiSquaredTest h r = ChiSquaredTest h r default_alpha"

definition new_CramersVTest :: "DataFrame \<Rightarrow> DataFrame \<Rightarrow> detector" where
  "new_CramersVTest h r = CramersVTest h r default_alpha"

definition new_KSTest :: "DataFrame \<Rightarrow> DataFrame \<Rightarrow> detector" where
  "new_KSTest h r = KSTest h r default_alpha"

definition new_CUSUM :: "DataFrame \<Rightarrow> DataFrame \<Rightarrow> detector" where
  "new_CUSUM h r = CUSUM h r default_threshold"

definition new_KLDivergence :: "DataFrame \<Rightarrow> DataFrame \<Rightarrow> detector" where
  "new_KLDivergence h r = KLDivergence h r default_bins default_threshold"

section \<open>The dispatcher\<close>

text \<open>
  \<open>get_drift_detector\<close> of \<open>load/drift_detectors/__init__.py\<close>: a dictionary from method
  identifiers to classes, \<open>dict.get\<close>, a \<open>ValueError\<close> when the lookup gives \<open>None\<close>
  (a class object is always truthy), and otherwise the class called with the two datasets.
\<close>

definition detectors :: "(string \<times> (DataFrame \<Rightarrow> DataFrame \<Rightarrow> detector)) list" where
  "detectors =
    [(''z_test'', new_ZTest),
     (''psi_calculator'', new_PSICalculator),
     (''chi_squared_test'', new_ChiSquaredTest),
     (''cramers_v_test'', new_CramersVTest),
     (''ks_test'', new_KSTest),
     (''cusum'', new_CUSUM),
     (''kl_divergence'', new_KLDivergence)]"

definition get_drift_detector :: "string \<Rightarrow> DataFrame \<Rightarrow> DataFrame \<Rightarrow> error + detector" where
  "get_drift_detector detector_name historical_data recent_data =
    (case map_of detectors detector_name of
       None \<Rightarrow> Inl (ValueError (''Handler does not exist: '' @ detector_name))
     | Some detector_class \<Rightarrow> Inr (detector_class historical_data recent_data))"

text \<open>The identifiers the spec lists as recognised.\<close>

definition method_identifiers :: "string list" where
  "method_identifiers =
    [''z_test'', ''psi_calculator'', ''chi_squared_test'', ''cramers_v_test'',
     ''ks_test'', ''cusum'', ''kl_divergence'']"

section \<open>Floating-point values\<close>

text \<open>
  A statistic is a NumPy \<open>float64\<close>. The model keeps the three special values apart
  from the finite ones and computes on finite values with real arithmetic: rounding,
  overflow, underflow and the sign of zero are not modelled. The operations follow
  IEEE 754 on the special values; NumPy scalar and array division by zero gives an
  infinity or NaN (with a warning), never an exception.
\<close>

datatype float64 = Fin real | PInf | NInf | NaN

fun isnan :: "float64 \<Rightarrow> bool" where
  "isnan NaN = True"
| "isnan _ = False"

fun isinf :: "float64 \<Rightarrow> bool" where
  "isinf PInf = True"
| "isinf NInf = True"
| "isinf _ = False"

fun fl_neg :: "float64 \<Rightarrow> float64" where
  "fl_neg (Fin a) = Fin (- a)"
| "fl_neg PInf = NInf"
| "fl_neg NInf = PInf"
| "fl_neg NaN = NaN"

fun fl_add :: "float64 \<Rightarrow> float64 \<Rightarrow> float64" where
  "fl_add (Fin a) (Fin b) = Fin (a + b)"
| "fl_add NaN _ = NaN"
| "fl_add _ NaN = NaN"
| "fl_add PInf NInf = NaN"
| "fl_add NInf PInf = NaN"
| "fl_add PInf _ = PInf"
| "fl_add _ PInf = PInf"
| "fl_add NInf _ = NInf"
| "fl_add _ NInf = NInf"

definition fl_sub :: "float64 \<Rightarrow> float64 \<Rightarrow> float64" where
  "fl_sub a b = fl_add a (fl_neg b)"

text \<open>The sign of a non-NaN value: \<open>1\<close>, \<open>0\<close> or \<open>-1\<close>.\<close>

fun fl_sgn :: "float64 \<Rightarrow> real" where
  "fl_sgn (Fin a) = sgn a"
| "fl_sgn PInf = 1"
| "fl_sgn NInf = - 1"
| "fl_sgn NaN = 0"

definition signed_inf :: "real \<Rightarrow> float64" where
  "signed_inf s = (if s = 0 then NaN else if 0 < s then PInf else NInf)"

fun fl_mul :: "float64 \<Rightarrow> float64 \<Rightarrow> float64" where
  "fl_mul (Fin a) (Fin b) = Fin (a * b)"
| "fl_mul NaN _ = NaN"
| "fl_mul _ NaN = NaN"
| "fl_mul a b = signed_inf (fl_sgn a * fl_sgn b)"

fun fl_div :: "float64 \<Rightarrow> float64 \<Rightarrow> float64" where
  "fl_div (Fin a) (Fin b) = (if b = 0 then signed_inf (sgn a) else Fin (a / b))"
| "fl_div NaN _ = NaN"
| "fl_div _ NaN = NaN"
| "fl_div (Fin a) _ = Fin 0"
| "fl_div PInf (Fin b) = (if b < 0 then NInf else PInf)"
| "fl_div NInf (Fin b) = (if b < 0 then PInf else NInf)"
| "fl_div _ _ = NaN"

fun fl_log :: "float64 \<Rightarrow> float64" where
  "fl_log (Fin a) = (if 0 < a then Fin (ln a) else if a = 0 then NInf else NaN)"
| "fl_log PInf = PInf"
| "fl_log _ = NaN"

fun fl_sqrt :: "float64 \<Rightarrow> float64" where
  "fl_sqrt (Fin a) = (if 0 \<le> a then Fin (sqrt a) else NaN)"
| "fl_sqrt PInf = PInf"
| "fl_sqrt _ = NaN"

fun fl_abs :: "float64 \<Rightarrow> float64" where
  "fl_abs (Fin a) = Fin \<bar>a\<bar>"
| "fl_abs NaN = NaN"
| "fl_abs _ = PInf"

text \<open>Comparison: every comparison with NaN is false.\<close>

fun fl_less :: "float64 \<Rightarrow> float64 \<Rightarrow> bool" where
  "fl_less (Fin a) (Fin b) = (a < b)"
| "fl_less NaN _ = False"
| "fl_less _ NaN = False"
| "fl_less NInf b = (b \<noteq> NInf)"
| "fl_less a PInf = (a \<noteq> PInf)"
| "fl_less _ _ = False"

definition fl_greater :: "float64 \<Rightarrow> float64 \<Rightarrow> bool" where
  "fl_greater a b = fl_less b a"

text \<open>Python's \<open>sum(xs)\<close> and \<open>np.sum\<close>: a left fold of the addition from zero.\<close>

definition fl_sum :: "float64 list \<Rightarrow> float64" where
  "fl_sum xs = foldl fl_add (Fin 0) xs"

section \<open>Columns of a table\<close>

text \<open>
  \<open>df[column_name]\<close> gives the column as a \<open>Series\<close> (the frame's index with the
  column's cells) and raises \<open>KeyError\<close> for a name that is not a column.
\<close>

record Series =
  s_index :: "nat list"
  s_values :: "cell list"

definition getitem :: "DataFrame \<Rightarrow> string \<Rightarrow> error + Series" where
  "getitem df column_name =
    (case map_of (df_columns df) column_name of
       None \<Rightarrow> Inl (KeyError column_name)
     | Some cells \<Rightarrow> Inr \<lparr>s_index = df_index df, s_values = cells\<rparr>)"

text \<open>
  The numeric routines work on a column of numbers; on a column holding text they raise
  a \<open>TypeError\<close>. Missing values (NaN cells) are outside the model: a numeric column is
  a list of finite numbers.
\<close>

fun to_numeric :: "cell list \<Rightarrow> error + real list" where
  "to_numeric [] = Inr []"
| "to_numeric (Num x # cs) =
     (case to_numeric cs of Inl e \<Rightarrow> Inl e | Inr xs \<Rightarrow> Inr (x # xs))"
| "to_numeric (Str s # cs) = Inl (TypeError s)"

section \<open>Histograms\<close>

text \<open>
  \<open>numpy.histogram\<close> as documented. With an integer \<open>bins\<close> the range is the minimum and
  maximum of the data (\<open>(0, 1)\<close> for empty data, widened by one half on each side when the
  two coincide) and the edges are \<open>linspace(first, last, bins + 1)\<close>; a \<open>bins\<close> below one
  is a \<open>ValueError\<close>. With an array of edges, the edges must not decrease. Every bin is
  half-open \<open>[e\<^sub>i, e\<^sub>i\<^sub>+\<^sub>1)\<close> except the last, which is closed; values outside the
  edges are not counted.
\<close>

definition linspace :: "real \<Rightarrow> real \<Rightarrow> nat \<Rightarrow> real list" where
  "linspace start stop n =
     map (\<lambda>i. start + real i * ((stop - start) / real n)) [0..<n] @ [stop]"

definition get_outer_edges :: "real list \<Rightarrow> real \<times> real" where
  "get_outer_edges a =
    (let first_edge = (if a = [] then 0 else Min (set a));
         last_edge = (if a = [] then 1 else Max (set a))
     in if first_edge = last_edge then (first_edge - 1 / 2, last_edge + 1 / 2)
        else (first_edge, last_edge))"

definition in_bin :: "real list \<Rightarrow> nat \<Rightarrow> real \<Rightarrow> bool" where
  "in_bin bin_edges i x =
     (bin_edges ! i \<le> x \<and>
      (if Suc (Suc i) = length bin_edges then x \<le> bin_edges ! Suc i
       else x < bin_edges ! Suc i))"

definition bin_counts :: "real list \<Rightarrow> real list \<Rightarrow> nat list" where
  "bin_counts a bin_edges =
     map (\<lambda>i. length (filter (in_bin bin_edges i) a)) [0..<length bin_edges - 1]"

definition histogram :: "real list \<Rightarrow> int \<Rightarrow> error + (nat list \<times> real list)" where
  "histogram a bins =
    (if bins < 1 then Inl (ValueError ''`bins` must be positive'')
     else let (first_edge, last_edge) = get_outer_edges a;
              bin_edges = linspace first_edge last_edge (nat bins)
          in Inr (bin_counts a bin_edges, bin_edges))"

definition histogram_edges :: "real list \<Rightarrow> real list \<Rightarrow> error + (nat list \<times> real list)" where
  "histogram_edges a bin_edges =
    (if \<not> sorted bin_edges then Inl (ValueError ''`bins` must increase monotonically'')
     else Inr (bin_counts a bin_edges, bin_edges))"

section \<open>Population stability index\<close>

text \<open>
  \<open>PSICalculator.detect_drift\<close>: histogram of the historical column, histogram of the
  recent column on the same edges, \<open>epsilon\<close> added to every count, each vector divided by
  its sum, and the sum of \<open>(recent - hist) * log(recent / hist)\<close> compared with the
  threshold.
\<close>

definition divide_by_sum :: "float64 list \<Rightarrow> float64 list" where
  "divide_by_sum counts = map (\<lambda>c. fl_div c (fl_sum counts)) counts"

definition psi_values :: "float64 list \<Rightarrow> float64 list \<Rightarrow> float64 list" where
  "psi_values recent_probs hist_probs =
     map (\<lambda>(r, h). fl_mul (fl_sub r h) (fl_log (fl_div r h))) (zip recent_probs hist_probs)"

definition PSICalculator_detect_drift ::
  "DataFrame \<Rightarrow> DataFrame \<Rightarrow> int \<Rightarrow> real \<Rightarrow> real \<Rightarrow> string \<Rightarrow> error + (bool \<times> float64)" where
  "PSICalculator_detect_drift historical_data recent_data bins epsilon threshold column_name =
    (case getitem historical_data column_name of Inl e \<Rightarrow> Inl e | Inr hs \<Rightarrow>
     case to_numeric (s_values hs) of Inl e \<Rightarrow> Inl e | Inr hvals \<Rightarrow>
     case histogram hvals bins of Inl e \<Rightarrow> Inl e | Inr (hist_counts, bin_edges) \<Rightarrow>
     case getitem recent_data column_name of Inl e \<Rightarrow> Inl e | Inr rs \<Rightarrow>
     case to_numeric (s_values rs) of Inl e \<Rightarrow> Inl e | Inr rvals \<Rightarrow>
     case histogram_edges rvals bin_edges of Inl e \<Rightarrow> Inl e | Inr (recent_counts, _) \<Rightarrow>
       let hist_counts' = map (\<lambda>c. Fin (real c + epsilon)) hist_counts;
           recent_counts' = map (\<lambda>c. Fin (real c + epsilon)) recent_counts;
           hist_probs = divide_by_sum hist_counts';
           recent_probs = divide_by_sum recent_counts';
           psi = fl_sum (psi_values recent_probs hist_probs);
           drift_detected = fl_greater psi (Fin threshold)
       in Inr (drift_detected, psi))"

section \<open>Kullback-Leibler divergence\<close>

text \<open>
  \<open>scipy.special.rel_entr\<close> and \<open>scipy.stats.entropy(pk, qk)\<close> as documented: both
  vectors are divided by their sums, and the result is the sum of the elementwise relative
  entropy \<open>pk * log(pk / qk)\<close>, which is \<open>0\<close> where \<open>pk = 0\<close> and \<open>qk \<ge> 0\<close>, and
  infinite in the remaining cases.
\<close>

definition rel_entr :: "float64 \<Rightarrow> float64 \<Rightarrow> float64" where
  "rel_entr x y =
    (if isnan x \<or> isnan y then NaN
     else if fl_less (Fin 0) x \<and> fl_less (Fin 0) y then fl_mul x (fl_log (fl_div x y))
     else if x = Fin 0 \<and> \<not> fl_less y (Fin 0) then Fin 0
     else PInf)"

definition entropy :: "float64 list \<Rightarrow> float64 list \<Rightarrow> float64" where
  "entropy pk qk = fl_sum (map (\<lambda>(p, q). rel_entr p q) (zip (divide_by_sum pk) (divide_by_sum qk)))"

text \<open>
  \<open>KLDivergence.detect_drift\<close>: the same two histograms as the PSI, the counts divided by
  their sums with nothing added, and \<open>entropy(hist_probs, recent_probs)\<close> compared with the
  threshold.
\<close>

definition KLDivergence_detect_drift ::
  "DataFrame \<Rightarrow> DataFrame \<Rightarrow> int \<Rightarrow> real \<Rightarrow> string \<Rightarrow> error + (bool \<times> float64)" where
  "KLDivergence_detect_drift historical_data recent_data num_bins threshold column_name =
    (case getitem historical_data column_name of Inl e \<Rightarrow> Inl e | Inr hs \<Rightarrow>
     case to_numeric (s_values hs) of Inl e \<Rightarrow> Inl e | Inr hvals \<Rightarrow>
     case histogram hvals num_bins of Inl e \<Rightarrow> Inl e | Inr (hist_counts, bin_edges) \<Rightarrow>
     case getitem recent_data column_name of Inl e \<Rightarrow> Inl e | Inr rs \<Rightarrow>
     case to_numeric (s_values rs) of Inl e \<Rightarrow> Inl e | Inr rvals \<Rightarrow>
     case histogram_edges rvals bin_edges of Inl e \<Rightarrow> Inl e | Inr (recent_counts, _) \<Rightarrow>
       let hist_probs = divide_by_sum (map (\<lambda>c. Fin (real c)) hist_counts);
           recent_probs = divide_by_sum (map (\<lambda>c. Fin (real c)) recent_counts);
           kld = entropy hist_probs recent_probs;
           drift_detected = fl_greater kld (Fin threshold)
       in Inr (drift_detected, kld))"

section \<open>Mean comparison and Kolmogorov-Smirnov tests\<close>

text \<open>
  The SciPy routines whose numerical results the model does not compute are parameters:
  the two-sample Kolmogorov-Smirnov test (statistic and p-value, or an exception), the
  standard normal distribution function and its inverse, and the chi-squared test of
  independence on a table that holds data (statistic and p-value).
\<close>

record scipy =
  ks_2samp :: "real list \<Rightarrow> real list \<Rightarrow> error + (float64 \<times> float64)"
  norm_cdf :: "float64 \<Rightarrow> float64"
  norm_ppf :: "float64 \<Rightarrow> float64"
  chi2_test :: "nat list list \<Rightarrow> float64 \<times> float64"

text \<open>
  \<open>Series.mean()\<close> and \<open>Series.std()\<close> of pandas: the mean of no values is NaN, the
  sample standard deviation (one degree of freedom removed) of fewer than two values is NaN.
\<close>

definition Series_mean :: "real list \<Rightarrow> float64" where
  "Series_mean xs = (if xs = [] then NaN else Fin (sum_list xs / real (length xs)))"

definition Series_std :: "real list \<Rightarrow> float64" where
  "Series_std xs =
    (if length xs \<le> 1 then NaN
     else let m = sum_list xs / real (length xs)
          in Fin (sqrt ((\<Sum>x\<leftarrow>xs. (x - m)\<^sup>2) / real (length xs - 1))))"

definition KSTest_detect_drift ::
  "scipy \<Rightarrow> DataFrame \<Rightarrow> DataFrame \<Rightarrow> real \<Rightarrow> string \<Rightarrow> error + (bool \<times> float64)" where
  "KSTest_detect_drift lib historical_data recent_data alpha column_name =
    (case getitem historical_data column_name of Inl e \<Rightarrow> Inl e | Inr column_data1 \<Rightarrow>
     case getitem recent_data column_name of Inl e \<Rightarrow> Inl e | Inr column_data2 \<Rightarrow>
     case to_numeric (s_values column_data1) of Inl e \<Rightarrow> Inl e | Inr xs \<Rightarrow>
     case to_numeric (s_values column_data2) of Inl e \<Rightarrow> Inl e | Inr ys \<Rightarrow>
     case ks_2samp lib xs ys of Inl e \<Rightarrow> Inl e | Inr (_, p_value) \<Rightarrow>
       let drift_detected = fl_less p_value (Fin alpha)
       in Inr (drift_detected, p_value))"

definition ZTest_detect_drift ::
  "scipy \<Rightarrow> DataFrame \<Rightarrow> DataFrame \<Rightarrow> real \<Rightarrow> string \<Rightarrow> error + (bool \<times> float64)" where
  "ZTest_detect_drift lib historical_data recent_data alpha column_name =
    (case getitem historical_data column_name of Inl e \<Rightarrow> Inl e | Inr hs \<Rightarrow>
     case to_numeric (s_values hs) of Inl e \<Rightarrow> Inl e | Inr hvals \<Rightarrow>
     case getitem recent_data column_name of Inl e \<Rightarrow> Inl e | Inr rs \<Rightarrow>
     case to_numeric (s_values rs) of Inl e \<Rightarrow> Inl e | Inr rvals \<Rightarrow>
       let mean1 = Series_mean hvals;
           mean2 = Series_mean rvals;
           std1 = Series_std hvals;
           std2 = Series_std rvals;
           n1 = Fin (real (length (df_index historical_data)));
           n2 = Fin (real (length (df_index recent_data)));
           pooled_std = fl_sqrt (fl_add (fl_div (fl_mul std1 std1) n1)
                                        (fl_div (fl_mul std2 std2) n2));
           z_score = fl_div (fl_sub mean1 mean2) pooled_std;
           z_critical = norm_ppf lib (Fin (1 - alpha / 2));
           p_value = fl_mul (Fin 2) (fl_sub (Fin 1) (norm_cdf lib (fl_abs z_score)));
           drift_detected = fl_greater (fl_abs z_score) z_critical
       in Inr (drift_detected, p_value))"

section \<open>Cumulative sums\<close>

text \<open>
  Python's \<open>max(0, v)\<close> and \<open>min(0, v)\<close>: the second argument is returned only when it
  compares greater (less) than the first, so a NaN gives \<open>0\<close>.
\<close>

definition py_max0 :: "float64 \<Rightarrow> float64" where
  "py_max0 v = (if fl_greater v (Fin 0) then v else Fin 0)"

definition py_min0 :: "float64 \<Rightarrow> float64" where
  "py_min0 v = (if fl_less v (Fin 0) then v else Fin 0)"

text \<open>
  The loop of \<open>CUSUM.detect_drift\<close> over \<open>enumerate(data)\<close>; the state is
  \<open>(s_pos, s_neg, drift_indices)\<close> and \<open>i\<close> is the position of the first remaining value.
\<close>

fun cusum_loop ::
  "real \<Rightarrow> float64 \<Rightarrow> nat \<Rightarrow> real list \<Rightarrow> float64 \<times> float64 \<times> nat list
     \<Rightarrow> float64 \<times> float64 \<times> nat list" where
  "cusum_loop threshold target_mean i [] state = state"
| "cusum_loop threshold target_mean i (x # data) (s_pos, s_neg, drift_indices) =
     (let deviation = fl_sub (Fin x) target_mean;
          s_pos' = py_max0 (fl_add s_pos deviation);
          s_neg' = py_min0 (fl_add s_neg deviation)
      in if fl_greater s_pos' (Fin threshold) \<or> fl_less s_neg' (Fin (- threshold))
         then cusum_loop threshold target_mean (Suc i) data (Fin 0, Fin 0, drift_indices @ [i])
         else cusum_loop threshold target_mean (Suc i) data (s_pos', s_neg', drift_indices))"

text \<open>
  Line 188 calls \<open>concat\<close> as a method of the recent column. pandas concatenates with the
  module-level function \<open>pandas.concat\<close>; the class \<open>Series\<close> defines no attribute of
  that name, and attribute lookup on a Series falls back only to the labels of its index,
  which are row numbers here. The attribute access therefore raises \<open>AttributeError\<close>
  before the argument is evaluated.
\<close>

definition Series_concat :: "Series \<Rightarrow> error + (Series \<Rightarrow> Series)" where
  "Series_concat s = Inl (AttributeError ''concat'')"

definition CUSUM_detect_drift ::
  "DataFrame \<Rightarrow> DataFrame \<Rightarrow> real \<Rightarrow> string \<Rightarrow> error + (bool \<times> nat list)" where
  "CUSUM_detect_drift historical_data recent_data threshold column_name =
    (case getitem historical_data column_name of Inl e \<Rightarrow> Inl e | Inr hs \<Rightarrow>
     case to_numeric (s_values hs) of Inl e \<Rightarrow> Inl e | Inr hvals \<Rightarrow>
     let target_mean = Series_mean hvals in
     case getitem recent_data column_name of Inl e \<Rightarrow> Inl e | Inr rs \<Rightarrow>
     case Series_concat rs of Inl e \<Rightarrow> Inl e | Inr concat_method \<Rightarrow>
     case getitem historical_data column_name of Inl e \<Rightarrow> Inl e | Inr hs' \<Rightarrow>
     case to_numeric (s_values (concat_method hs')) of Inl e \<Rightarrow> Inl e | Inr data \<Rightarrow>
       let (s_pos, s_neg, drift_indices) =
             cusum_loop threshold target_mean 0 data (Fin 0, Fin 0, []);
           drift_detected = (length drift_indices > 0)
       in Inr (drift_detected, drift_indices))"

section \<open>Chi-squared and Cramer's V\<close>

text \<open>
  \<open>pd.crosstab(a, b)\<close> on two Series aligns them on the labels their indexes have in
  common and cross-tabulates the pairs of values found under those labels. The model is
  for Series with duplicate-free indexes, the only ones the orchestrator produces. Rows
  and columns of the table are the distinct values of the two sides (pandas orders them by
  sorting, the model by first occurrence).
\<close>

definition crosstab_pairs :: "Series \<Rightarrow> Series \<Rightarrow> (cell \<times> cell) list" where
  "crosstab_pairs a b =
     concat (map (\<lambda>(l, v). case map_of (zip (s_index b) (s_values b)) l of
                               None \<Rightarrow> [] | Some w \<Rightarrow> [(v, w)])
                 (zip (s_index a) (s_values a)))"

definition crosstab :: "Series \<Rightarrow> Series \<Rightarrow> nat list list" where
  "crosstab a b =
    (let pairs = crosstab_pairs a b
     in map (\<lambda>v. map (\<lambda>w. length (filter (\<lambda>p. p = (v, w)) pairs)) (remdups (map snd pairs)))
            (remdups (map fst pairs)))"

text \<open>
  \<open>scipy.stats.chi2_contingency\<close> refuses a table without data (\<open>observed.size == 0\<close>)
  with a \<open>ValueError\<close>; on any other table built by \<open>crosstab\<close> it returns the statistic
  and the p-value.
\<close>

definition table_size :: "nat list list \<Rightarrow> nat" where
  "table_size t = length t * (case t of [] \<Rightarrow> 0 | row # _ \<Rightarrow> length row)"

definition chi2_contingency :: "scipy \<Rightarrow> nat list list \<Rightarrow> error + (float64 \<times> float64)" where
  "chi2_contingency lib observed =
    (if table_size observed = 0 then Inl (ValueError ''No data; `observed` has size 0.'')
     else Inr (chi2_test lib observed))"

definition ChiSquaredTest_detect_drift ::
  "scipy \<Rightarrow> DataFrame \<Rightarrow> DataFrame \<Rightarrow> real \<Rightarrow> string \<Rightarrow> error + (bool \<times> float64)" where
  "ChiSquaredTest_detect_drift lib historical_data recent_data alpha column_name =
    (case getitem historical_data column_name of Inl e \<Rightarrow> Inl e | Inr hs \<Rightarrow>
     case getitem recent_data column_name of Inl e \<Rightarrow> Inl e | Inr rs \<Rightarrow>
     let contingency_table = crosstab hs rs in
     case chi2_contingency lib contingency_table of Inl e \<Rightarrow> Inl e | Inr (_, p_value) \<Rightarrow>
       let drift_detected = fl_less p_value (Fin alpha)
       in Inr (drift_detected, p_value))"

definition CramersVTest_detect_drift ::
  "scipy \<Rightarrow> DataFrame \<Rightarrow> DataFrame \<Rightarrow> real \<Rightarrow> string \<Rightarrow> error + (bool \<times> float64)" where
  "CramersVTest_detect_drift lib historical_data recent_data alpha column_name =
    (case getitem historical_data column_name of Inl e \<Rightarrow> Inl e | Inr hs \<Rightarrow>
     case getitem recent_data column_name of Inl e \<Rightarrow> Inl e | Inr rs \<Rightarrow>
     let contingency_table = crosstab hs rs in
     case chi2_contingency lib contingency_table of Inl e \<Rightarrow> Inl e | Inr (chi2, p_value) \<Rightarrow>
       let n = sum_list (map sum_list contingency_table);
           min_dim = min (length contingency_table)
                         (case contingency_table of [] \<Rightarrow> 0 | row # _ \<Rightarrow> length row);
           cramer_v = fl_sqrt (fl_div chi2 (Fin (real n * (real min_dim - 1))));
           drift_detected = fl_less p_value (Fin alpha)
       in Inr (drift_detected, cramer_v))"

section \<open>The detector contract\<close>

text \<open>
  What \<open>detect_drift\<close> hands back as its second component: a float for six detectors,
  the list of crossing positions for CUSUM.
\<close>

datatype stat = Float float64 | Indices "nat list"

fun detect_drift :: "scipy \<Rightarrow> detector \<Rightarrow> string \<Rightarrow> error + (bool \<times> stat)" where
  "detect_drift lib (ZTest h r alpha) c =
     map_sum id (\<lambda>(d, s). (d, Float s)) (ZTest_detect_drift lib h r alpha c)"
| "detect_drift lib (PSICalculator h r bins epsilon threshold) c =
     map_sum id (\<lambda>(d, s). (d, Float s)) (PSICalculator_detect_drift h r bins epsilon threshold c)"
| "detect_drift lib (ChiSquaredTest h r alpha) c =
     map_sum id (\<lambda>(d, s). (d, Float s)) (ChiSquaredTest_detect_drift lib h r alpha c)"
| "detect_drift lib (CramersVTest h r alpha) c =
     map_sum id (\<lambda>(d, s). (d, Float s)) (CramersVTest_detect_drift lib h r alpha c)"
| "detect_drift lib (KSTest h r alpha) c =
     map_sum id (\<lambda>(d, s). (d, Float s)) (KSTest_detect_drift lib h r alpha c)"
| "detect_drift lib (CUSUM h r threshold) c =
     map_sum id (\<lambda>(d, s). (d, Indices s)) (CUSUM_detect_drift h r threshold c)"
| "detect_drift lib (KLDivergence h r num_bins threshold) c =
     map_sum id (\<lambda>(d, s). (d, Float s)) (KLDivergence_detect_drift h r num_bins threshold c)"

section \<open>Reading and splitting a table\<close>

text \<open>
  \<open>pd.read_csv\<close>: the file system gives, for a path, the parsed columns or the exception
  of a missing or unreadable file; the frame gets the default row index \<open>0, 1, \<dots>\<close>
\<close>

definition n_rows :: "(string \<times> cell list) list \<Rightarrow> nat" where
  "n_rows cols = (case cols of [] \<Rightarrow> 0 | (_, cells) # _ \<Rightarrow> length cells)"

definition read_csv ::
  "(string \<Rightarrow> error + (string \<times> cell list) list) \<Rightarrow> string \<Rightarrow> error + DataFrame" where
  "read_csv fs path =
    (case fs path of
       Inl e \<Rightarrow> Inl e
     | Inr cols \<Rightarrow> Inr \<lparr>df_index = [0..<n_rows cols], df_columns = cols\<rparr>)"

text \<open>The rows of a frame at the given positions, in the given order.\<close>

definition take_rows :: "DataFrame \<Rightarrow> nat list \<Rightarrow> DataFrame" where
  "take_rows df locs =
     \<lparr>df_index = map (\<lambda>i. df_index df ! i) locs,
      df_columns = map (\<lambda>(c, cells). (c, map (\<lambda>i. cells ! i) locs)) (df_columns df)\<rparr>"

text \<open>
  \<open>df.sample(frac=0.8)\<close> draws \<open>round(frac * len(df))\<close> distinct row positions at random
  and returns those rows. The rounding of Python goes to the even neighbour on a tie, but
  eight tenths of a whole number is never half-way between two whole numbers. The random
  draw is the parameter \<open>choice\<close>: given the number of rows and the size of the sample it
  returns the positions drawn.
\<close>

definition sample_size :: "nat \<Rightarrow> nat" where
  "sample_size obj_len = nat (round (8 / 10 * real obj_len))"

definition sample :: "(nat \<Rightarrow> nat \<Rightarrow> nat list) \<Rightarrow> DataFrame \<Rightarrow> DataFrame" where
  "sample choice df =
     take_rows df (choice (length (df_index df)) (sample_size (length (df_index df))))"

text \<open>
  \<open>df.drop(labels)\<close> removes every row whose label is among \<open>labels\<close> and raises
  \<open>KeyError\<close> when a label is not in the index.
\<close>

definition drop_rows :: "DataFrame \<Rightarrow> nat list \<Rightarrow> error + DataFrame" where
  "drop_rows df labels =
    (if \<not> set labels \<subseteq> set (df_index df) then Inl (KeyError ''not found in axis'')
     else Inr (take_rows df
                 (filter (\<lambda>i. df_index df ! i \<notin> set labels) [0..<length (df_index df)])))"




section \<open>The orchestrator\<close>

text \<open>
  The configuration read from \<open>config.toml\<close>: a list of tables, each with the path of its
  file and its columns; a column has a name, a method identifier and possibly further
  keys (method parameters).
\<close>

record column_config =
  name :: string  method_name :: string  params :: "(string \<times> real) list"

record table_config =
  current_table :: string
  columns :: "column_config list"

type_synonym report = "string \<rightharpoonup> (string \<rightharpoonup> bool \<times> stat)"

datatype log_event =
    Started
  | StartedTable string
  | StartedColumn string
  | DriftStatus report

text \<open>The local variables of \<open>drift_monitoring\<close>, the log, and the number of random draws made.\<close>

record run_state =
  drift_status :: report
  tables_list :: "string list"
  columns_list :: "string list"
  status_list :: "bool list"
  stat_list :: "stat list"
  log :: "log_event list"
  draws :: nat

text \<open>
  Lines 49 and 50: \<open>if np.isnan(stat) | np.isinf(stat): stat = 0\<close>. On a float the test is
  a boolean. On a list the two NumPy functions give arrays, and the truth value of an
  array with more than one element is a \<open>ValueError\<close>; an array of one element has the
  truth value of that element, which is false for a position, and an empty array is false.
\<close>

definition sanitize :: "stat \<Rightarrow> error + stat" where
  "sanitize st =
    (case st of
       Float x \<Rightarrow> Inr (if isnan x \<or> isinf x then Float (Fin 0) else Float x)
     | Indices xs \<Rightarrow>
         if length xs > 1
         then Inl (ValueError ''The truth value of an array with more than one element is ambiguous'')
         else Inr (Indices xs))"

text \<open>The detector for one configured column: the dispatcher, called with the method and the two slices.\<close>

definition column_detector :: "column_config \<Rightarrow> DataFrame \<Rightarrow> DataFrame \<Rightarrow> error + detector" where
  "column_detector column historical_data current_data =
     get_drift_detector (method_name column) historical_data current_data"

text \<open>The body of the loop over the columns of a table.\<close>

definition process_column ::
  "scipy \<Rightarrow> string \<Rightarrow> DataFrame \<Rightarrow> DataFrame \<Rightarrow> column_config \<Rightarrow> run_state
     \<Rightarrow> error + run_state" where
  "process_column lib table historical_data current_data column st =
    (let st1 = st\<lparr>tables_list := tables_list st @ [table]\<rparr> in
     case column_detector column historical_data current_data of Inl e \<Rightarrow> Inl e
     | Inr drift_detector \<Rightarrow>
     let st2 = st1\<lparr>log := log st1 @ [StartedColumn (name column)]\<rparr> in
     case detect_drift lib drift_detector (name column) of Inl e \<Rightarrow> Inl e
     | Inr (drift_detected, stat0) \<Rightarrow>
     case sanitize stat0 of Inl e \<Rightarrow> Inl e
     | Inr stat1 \<Rightarrow>
     case drift_status st2 table of None \<Rightarrow> Inl (KeyError table)
     | Some entries \<Rightarrow>
       Inr (st2\<lparr>drift_status := (drift_status st2)
                     (table \<mapsto> entries(name column \<mapsto> (drift_detected, stat1))),
                columns_list := columns_list st2 @ [name column],
                status_list := status_list st2 @ [drift_detected],
                stat_list := stat_list st2 @ [stat1]\<rparr>))"

fun process_columns ::
  "scipy \<Rightarrow> string \<Rightarrow> DataFrame \<Rightarrow> DataFrame \<Rightarrow> column_config list \<Rightarrow> run_state
     \<Rightarrow> error + run_state" where
  "process_columns lib table historical_data current_data [] st = Inr st"
| "process_columns lib table historical_data current_data (column # cols) st =
     (case process_column lib table historical_data current_data column st of
        Inl e \<Rightarrow> Inl e
      | Inr st' \<Rightarrow> process_columns lib table historical_data current_data cols st')"

text \<open>The body of the loop over the configured tables; the \<open>k\<close>-th draw of the run is \<open>choice k\<close>.\<close>

definition process_table ::
  "scipy \<Rightarrow> (string \<Rightarrow> error + (string \<times> cell list) list) \<Rightarrow> (nat \<Rightarrow> nat \<Rightarrow> nat \<Rightarrow> nat list)
     \<Rightarrow> table_config \<Rightarrow> run_state \<Rightarrow> error + run_state" where
  "process_table lib fs choice table st =
    (let st1 = st\<lparr>drift_status := (drift_status st)(current_table table \<mapsto> Map.empty),
                  log := log st @ [StartedTable (current_table table)]\<rparr> in
     case read_csv fs (current_table table) of Inl e \<Rightarrow> Inl e
     | Inr initial_table \<Rightarrow>
     let historical_data = sample (choice (draws st1)) initial_table;
         st2 = st1\<lparr>draws := Suc (draws st1)\<rparr> in
     case drop_rows initial_table (df_index historical_data) of Inl e \<Rightarrow> Inl e
     | Inr current_data \<Rightarrow>
       process_columns lib (current_table table) historical_data current_data
         (columns table) st2)"

fun process_tables ::
  "scipy \<Rightarrow> (string \<Rightarrow> error + (string \<times> cell list) list) \<Rightarrow> (nat \<Rightarrow> nat \<Rightarrow> nat \<Rightarrow> nat list)
     \<Rightarrow> table_config list \<Rightarrow> run_state \<Rightarrow> error + run_state" where
  "process_tables lib fs choice [] st = Inr st"
| "process_tables lib fs choice (table # ts) st =
     (case process_table lib fs choice table st of
        Inl e \<Rightarrow> Inl e
      | Inr st' \<Rightarrow> process_tables lib fs choice ts st')"

definition initial_state :: run_state where
  "initial_state =
     \<lparr>drift_status = Map.empty, tables_list = [], columns_list = [], status_list = [],
      stat_list = [], log = [Started], draws = 0\<rparr>"

text \<open>
  \<open>drift_monitoring\<close>: the loop over the tables, then the report is logged. An exception
  raised anywhere in the loop is not caught and ends the run.
\<close>

definition drift_monitoring ::
  "scipy \<Rightarrow> (string \<Rightarrow> error + (string \<times> cell list) list) \<Rightarrow> (nat \<Rightarrow> nat \<Rightarrow> nat \<Rightarrow> nat list)
     \<Rightarrow> table_config list \<Rightarrow> error + run_state" where
  "drift_monitoring lib fs choice config =
    (case process_tables lib fs choice config initial_state of
       Inl e \<Rightarrow> Inl e
     | Inr st \<Rightarrow> Inr (st\<lparr>log := log st @ [DriftStatus (drift_status st)]\<rparr>))"

text \<open>The entry of the logged report for a table and a column, if the run logged a report.\<close>

definition report_entry :: "error + run_state \<Rightarrow> string \<Rightarrow> string \<Rightarrow> (bool \<times> stat) option" where
  "report_entry result table column =
    (case result of
       Inl e \<Rightarrow> None
     | Inr st \<Rightarrow> (case drift_status st table of None \<Rightarrow> None | Some entries \<Rightarrow> entries column))"

section \<open>Example inputs\<close>

text \<open>Two slices with one numeric column \<open>x\<close>, and a recent slice with a value in a middle bin.\<close>

definition example_historical :: DataFrame where
  "example_historical = \<lparr>df_index = [0, 1], df_columns = [(''x'', [Num 0, Num 10])]\<rparr>"

definition example_recent :: DataFrame where
  "example_recent = \<lparr>df_index = [2], df_columns = [(''x'', [Num 0])]\<rparr>"


text \<open>A column holding one value only, and a column without values.\<close>

definition single_valued :: DataFrame where
  "single_valued = \<lparr>df_index = [0, 1, 2], df_columns = [(''x'', [Num 5, Num 5, Num 5])]\<rparr>"

definition empty_column :: DataFrame where
  "empty_column = \<lparr>df_index = [], df_columns = [(''x'', [])]\<rparr>"

text \<open>
  A file system with the single table \<open>orders.csv\<close> of five rows, a random source that
  always draws the first positions, and library routines with constant results.
\<close>

definition example_files :: "string \<Rightarrow> error + (string \<times> cell list) list" where
  "example_files path =
    (if path = ''orders.csv''
     then Inr [(''amount'', [Num 1, Num 2, Num 3, Num 4, Num 5])]
     else Inl (FileNotFoundError path))"

definition example_choice :: "nat \<Rightarrow> nat \<Rightarrow> nat \<Rightarrow> nat list" where
  "example_choice k n m = [0..<m]"

definition example_scipy :: scipy where
  "example_scipy =
     \<lparr>ks_2samp = (\<lambda>xs ys. Inr (Fin 0, Fin 1)), norm_cdf = (\<lambda>z. Fin (1 / 2)),
      norm_ppf = (\<lambda>q. Fin 2), chi2_test = (\<lambda>t. (Fin 0, Fin 1))\<rparr>"

definition orders_table :: DataFrame where
  "orders_table =
     \<lparr>df_index = [0, 1, 2, 3, 4],
      df_columns = [(''amount'', [Num 1, Num 2, Num 3, Num 4, Num 5])]\<rparr>"

definition orders_kl :: table_config where
  "orders_kl =
     \<lparr>current_table = ''orders.csv'',
      columns = [\<lparr>name = ''amount'', method_name = ''kl_divergence'', params = []\<rparr>]\<rparr>"

definition missing_table :: table_config where
  "missing_table =
     \<lparr>current_table = ''missing.csv'',
      columns = [\<lparr>name = ''amount'', method_name = ''kl_divergence'', params = []\<rparr>]\<rparr>"

definition psi_column :: column_config where
  "psi_column = \<lparr>name = ''x'', method_name = ''psi_calculator'', params = [(''threshold'', 1 / 2)]\<rparr>"

text \<open>The two slices of \<open>orders.csv\<close> under \<open>example_choice\<close>: the first four rows and the last one.\<close>

definition orders_historical :: DataFrame where
  "orders_historical =
     \<lparr>df_index = [0, 1, 2, 3], df_columns = [(''amount'', [Num 1, Num 2, Num 3, Num 4])]\<rparr>"

definition orders_recent :: DataFrame where
  "orders_recent = \<lparr>df_index = [4], df_columns = [(''amount'', [Num 5])]\<rparr>"

definition orders_chi :: table_config where
  "orders_chi =
     \<lparr>current_table = ''orders.csv'',
      columns = [\<lparr>name = ''amount'', method_name = ''chi_squared_test'', params = []\<rparr>]\<rparr>"

text \<open>The state of a run after the table \<open>orders.csv\<close> with its column \<open>amount\<close>.\<close>

definition orders_kl_state :: run_state where
  "orders_kl_state =
     \<lparr>drift_status = [''orders.csv'' \<mapsto> [''amount'' \<mapsto> (False, Float (Fin 0))]],
      tables_list = [''orders.csv''], columns_list = [''amount''], status_list = [False],
      stat_list = [Float (Fin 0)],
      log = [Started, StartedTable ''orders.csv'', StartedColumn ''amount''],
      draws = 1\<rparr>"

text \<open>A report all of whose statistics are finite floats.\<close>

definition all_finite :: "report \<Rightarrow> bool" where
  "all_finite rep =
     (\<forall>t entries c d s. rep t = Some entries \<longrightarrow> entries c = Some (d, s) \<longrightarrow> (\<exists>x. s = Float (Fin x)))"


section \<open>Properties of the dispatcher\<close>

lemma map_fst_detectors: "map fst detectors = method_identifiers"
  by (simp add: detectors_def method_identifiers_def)

lemma map_of_detectors_None:
  "detector_name \<notin> set method_identifiers \<Longrightarrow> map_of detectors detector_name = None"
  by (simp add: map_of_eq_None_iff map_fst_detectors [symmetric])

lemma get_drift_detector_unknown:
  assumes "detector_name \<notin> set method_identifiers"
  shows "get_drift_detector detector_name h r =
           Inl (ValueError (''Handler does not exist: '' @ detector_name))"
  using map_of_detectors_None [OF assms] by (simp add: get_drift_detector_def)

lemma get_drift_detector_known:
  "get_drift_detector ''z_test'' h r = Inr (new_ZTest h r)"
  "get_drift_detector ''psi_calculator'' h r = Inr (new_PSICalculator h r)"
  "get_drift_detector ''chi_squared_test'' h r = Inr (new_ChiSquaredTest h r)"
  "get_drift_detector ''cramers_v_test'' h r = Inr (new_CramersVTest h r)"
  "get_drift_detector ''ks_test'' h r = Inr (new_KSTest h r)"
  "get_drift_detector ''cusum'' h r = Inr (new_CUSUM h r)"
  "get_drift_detector ''kl_divergence'' h r = Inr (new_KLDivergence h r)"
  by (simp_all add: get_drift_detector_def detectors_def)

text \<open>
  Claim C2. For a method identifier outside the seven registered ones the dispatcher
  raises a \<open>ValueError\<close> whose message contains the identifier, so it returns no detector
  at all, default or otherwise; for each registered identifier it returns an instance of
  the class registered under it (\<open>z_test\<close> gives a \<open>ZTest\<close>, \<open>psi_calculator\<close> a
  \<open>PSICalculator\<close>, and so on), built from the two datasets it was given.
\<close>

theorem get_drift_detector_dispatch:
  "(detector_name \<notin> set method_identifiers \<longrightarrow>
      (\<exists>msg. get_drift_detector detector_name h r = Inl (ValueError msg)
             \<and> sublist detector_name msg)
      \<and> (\<forall>d. get_drift_detector detector_name h r \<noteq> Inr d))
   \<and> (\<exists>a. get_drift_detector ''z_test'' h r = Inr (ZTest h r a))
   \<and> (\<exists>b e t. get_drift_detector ''psi_calculator'' h r = Inr (PSICalculator h r b e t))
   \<and> (\<exists>a. get_drift_detector ''chi_squared_test'' h r = Inr (ChiSquaredTest h r a))
   \<and> (\<exists>a. get_drift_detector ''cramers_v_test'' h r = Inr (CramersVTest h r a))
   \<and> (\<exists>a. get_drift_detector ''ks_test'' h r = Inr (KSTest h r a))
   \<and> (\<exists>t. get_drift_detector ''cusum'' h r = Inr (CUSUM h r t))
   \<and> (\<exists>b t. get_drift_detector ''kl_divergence'' h r = Inr (KLDivergence h r b t))"
proof -
  have unknown: "detector_name \<notin> set method_identifiers \<longrightarrow>
      (\<exists>msg. get_drift_detector detector_name h r = Inl (ValueError msg)
             \<and> sublist detector_name msg)
      \<and> (\<forall>d. get_drift_detector detector_name h r \<noteq> Inr d)"
  proof
    assume out: "detector_name \<notin> set method_identifiers"
    have "sublist detector_name (''Handler does not exist: '' @ detector_name)"
      by (rule sublist_append_leftI)
    with get_drift_detector_unknown [OF out, of h r]
    show "(\<exists>msg. get_drift_detector detector_name h r = Inl (ValueError msg)
             \<and> sublist detector_name msg)
      \<and> (\<forall>d. get_drift_detector detector_name h r \<noteq> Inr d)"
      by simp
  qed
  show ?thesis
    using unknown
    by (simp add: get_drift_detector_known new_ZTest_def new_PSICalculator_def
        new_ChiSquaredTest_def new_CramersVTest_def new_KSTest_def new_CUSUM_def
        new_KLDivergence_def)
qed

theorem get_drift_detector_dispatch_witness:
  "''bogus_test'' \<notin> set method_identifiers
   \<and> (\<exists>msg. get_drift_detector ''bogus_test''
              \<lparr>df_index = [], df_columns = []\<rparr> \<lparr>df_index = [], df_columns = []\<rparr>
            = Inl (ValueError msg) \<and> sublist ''bogus_test'' msg)"
proof -
  have out: "''bogus_test'' \<notin> set method_identifiers"
    by (simp add: method_identifiers_def)
  show ?thesis
    using out get_drift_detector_dispatch [of "''bogus_test''"
        "\<lparr>df_index = [], df_columns = []\<rparr>" "\<lparr>df_index = [], df_columns = []\<rparr>"]
    by blast
qed

section \<open>Properties of the histograms\<close>










section \<open>Sums and quotients of finite values\<close>









section \<open>Properties of the population stability index\<close>







section \<open>Properties of the Kullback-Leibler divergence\<close>













section \<open>Worked examples of the binned detectors\<close>








section \<open>Properties of the CUSUM detector\<close>

text \<open>The loop itself resets both sums and records the position when a threshold is crossed.\<close>

lemma cusum_loop_crossing:
  assumes "fl_greater (py_max0 (fl_add s_pos (fl_sub (Fin x) target_mean))) (Fin threshold)
           \<or> fl_less (py_min0 (fl_add s_neg (fl_sub (Fin x) target_mean))) (Fin (- threshold))"
  shows "cusum_loop threshold target_mean i (x # data) (s_pos, s_neg, drift_indices)
           = cusum_loop threshold target_mean (Suc i) data (Fin 0, Fin 0, drift_indices @ [i])"
  using assms by (simp add: Let_def)

text \<open>
  Claim C5. \<open>CUSUM.detect_drift\<close> is meant to run over the recent values followed by the
  historical ones and to return the positions of the threshold crossings. As written it
  never gets there: whatever the two datasets, the threshold and the column, the call
  ends with an exception (a \<open>KeyError\<close> or \<open>TypeError\<close> for an unusable column, and
  otherwise the \<open>AttributeError\<close> of the attribute \<open>concat\<close>), so no crossing is ever
  recorded or returned.
\<close>

theorem CUSUM_detect_drift_raises:
  "\<exists>e. CUSUM_detect_drift historical_data recent_data threshold column_name = Inl e"
  by (simp add: CUSUM_detect_drift_def Series_concat_def Let_def split: sum.splits)

lemma CUSUM_detect_drift_numeric:
  assumes "getitem historical_data column_name = Inr hs" "to_numeric (s_values hs) = Inr hvals"
    and "getitem recent_data column_name = Inr rs"
  shows "CUSUM_detect_drift historical_data recent_data threshold column_name
           = Inl (AttributeError ''concat'')"
  using assms by (simp add: CUSUM_detect_drift_def Series_concat_def Let_def)

text \<open>
  Claim C6. A numeric detector should return a result on a single-valued or an empty
  column. The CUSUM detector built by the dispatcher does not: on a column holding the
  value 5 three times, and on a column without values, \<open>detect_drift\<close> raises the
  \<open>AttributeError\<close> of \<open>concat\<close>.
\<close>

theorem CUSUM_degenerate_column_raises:
  "get_drift_detector ''cusum'' single_valued single_valued
     = Inr (CUSUM single_valued single_valued (1 / 10))
   \<and> detect_drift lib (CUSUM single_valued single_valued (1 / 10)) ''x''
       = Inl (AttributeError ''concat'')
   \<and> get_drift_detector ''cusum'' empty_column empty_column
       = Inr (CUSUM empty_column empty_column (1 / 10))
   \<and> detect_drift lib (CUSUM empty_column empty_column (1 / 10)) ''x''
       = Inl (AttributeError ''concat'')"
proof -
  have g1: "getitem single_valued ''x'' = Inr \<lparr>s_index = [0, 1, 2], s_values = [Num 5, Num 5, Num 5]\<rparr>"
    by (simp add: getitem_def single_valued_def)
  have n1: "to_numeric (s_values \<lparr>s_index = [0, 1, 2], s_values = [Num 5, Num 5, Num 5]\<rparr>) = Inr [5, 5, 5]"
    by simp
  have s: "CUSUM_detect_drift single_valued single_valued (1 / 10) ''x'' = Inl (AttributeError ''concat'')"
    by (rule CUSUM_detect_drift_numeric [OF g1 n1 g1])
  have g2: "getitem empty_column ''x'' = Inr \<lparr>s_index = [], s_values = []\<rparr>"
    by (simp add: getitem_def empty_column_def)
  have n2: "to_numeric (s_values \<lparr>s_index = [], s_values = []\<rparr>) = Inr []"
    by simp
  have e: "CUSUM_detect_drift empty_column empty_column (1 / 10) ''x'' = Inl (AttributeError ''concat'')"
    by (rule CUSUM_detect_drift_numeric [OF g2 n2 g2])
  show ?thesis
    by (simp add: s e get_drift_detector_known new_CUSUM_def default_threshold_def)
qed

section \<open>Detector parameters\<close>

lemma get_drift_detector_defaults:
  assumes "get_drift_detector m h r = Inr det"
  shows "det \<in> {ZTest h r (5 / 100), PSICalculator h r 10 (1 / 100000) (1 / 10),
                ChiSquaredTest h r (5 / 100), CramersVTest h r (5 / 100), KSTest h r (5 / 100),
                CUSUM h r (1 / 10), KLDivergence h r 10 (1 / 10)}"
proof -
  from assms obtain cls where cls: "map_of detectors m = Some cls" "det = cls h r"
    by (auto simp: get_drift_detector_def split: option.splits)
  from cls(1) have "(m, cls) \<in> set detectors" by (rule map_of_SomeD)
  then have "cls \<in> {new_ZTest, new_PSICalculator, new_ChiSquaredTest, new_CramersVTest,
                     new_KSTest, new_CUSUM, new_KLDivergence}"
    by (auto simp: detectors_def)
  with cls(2) show ?thesis
    by (auto simp: new_ZTest_def new_PSICalculator_def new_ChiSquaredTest_def
        new_CramersVTest_def new_KSTest_def new_CUSUM_def new_KLDivergence_def
        default_alpha_def default_bins_def default_epsilon_def default_threshold_def)
qed

text \<open>
  Claim C8, as amended. A detector built by the dispatcher carries the defaults
  \<open>\<alpha> = 0.05\<close>, \<open>bins = 10\<close>, \<open>\<epsilon> = 1e-5\<close>, \<open>threshold = 0.1\<close>, whatever the method. The
  orchestrator hands the dispatcher the method and the two slices only, so the detector
  of a column does not depend on the parameters written in that column's configuration.
\<close>

theorem column_detector_defaults:
  "column_detector (column\<lparr>params := ps\<rparr>) h r = column_detector column h r
   \<and> (column_detector column h r = Inr det \<longrightarrow>
        det \<in> {ZTest h r (5 / 100), PSICalculator h r 10 (1 / 100000) (1 / 10),
               ChiSquaredTest h r (5 / 100), CramersVTest h r (5 / 100), KSTest h r (5 / 100),
               CUSUM h r (1 / 10), KLDivergence h r 10 (1 / 10)})"
  using get_drift_detector_defaults [of "method_name column" h r det]
  by (simp add: column_detector_def)

theorem column_detector_defaults_witness:
  "column_detector psi_column example_historical example_recent
     = Inr (PSICalculator example_historical example_recent 10 (1 / 100000) (1 / 10))
   \<and> PSICalculator example_historical example_recent 10 (1 / 100000) (1 / 10)
       \<in> {ZTest example_historical example_recent (5 / 100),
          PSICalculator example_historical example_recent 10 (1 / 100000) (1 / 10),
          ChiSquaredTest example_historical example_recent (5 / 100),
          CramersVTest example_historical example_recent (5 / 100),
          KSTest example_historical example_recent (5 / 100),
          CUSUM example_historical example_recent (1 / 10),
          KLDivergence example_historical example_recent 10 (1 / 10)}"
proof -
  have d: "column_detector psi_column example_historical example_recent
     = Inr (PSICalculator example_historical example_recent 10 (1 / 100000) (1 / 10))"
    by (simp add: column_detector_def psi_column_def get_drift_detector_known
        new_PSICalculator_def default_bins_def default_epsilon_def default_threshold_def)
  from column_detector_defaults [where column = psi_column and h = example_historical
      and r = example_recent
      and det = "PSICalculator example_historical example_recent 10 (1 / 100000) (1 / 10)"] d
  show ?thesis by blast
qed

text \<open>
  The claim C8 as first stated lets a configured parameter override the default: the
  column \<open>psi_column\<close> asks for the threshold one half and gets a detector with the
  threshold one tenth.
\<close>

theorem column_detector_override_counterexample:
  "map_of (params psi_column) ''threshold'' = Some (1 / 2)
   \<and> method_name psi_column = ''psi_calculator''
   \<and> column_detector psi_column example_historical example_recent
       = Inr (PSICalculator example_historical example_recent 10 (1 / 100000) (1 / 10))
   \<and> column_detector psi_column example_historical example_recent
       \<noteq> Inr (PSICalculator example_historical example_recent 10 (1 / 100000) (1 / 2))"
  by (simp add: column_detector_def psi_column_def get_drift_detector_known
      new_PSICalculator_def default_bins_def default_epsilon_def default_threshold_def)

section \<open>A worked run of the orchestrator\<close>

lemma sample_size_eq: "sample_size n = (4 * n + 2) div 5"
proof -
  have "round (8 / 10 * real n) = \<lfloor>(8 * real n + 5) / 10\<rfloor>"
    by (simp add: round_def add_divide_distrib)
  also have "(8 * real n + 5) / 10 = real (8 * n + 5) / real 10" by simp
  also have "\<lfloor>real (8 * n + 5) / real 10\<rfloor> = int ((8 * n + 5) div 10)"
    by (rule floor_divide_of_nat_eq)
  finally have "sample_size n = (8 * n + 5) div 10" by (simp add: sample_size_def)
  also have "\<dots> = (4 * n + 2) div 5" by presburger
  finally show ?thesis .
qed

lemma read_csv_orders: "read_csv example_files ''orders.csv'' = Inr orders_table"
  by (simp add: read_csv_def example_files_def orders_table_def n_rows_def upt_conv_Cons)

lemma sample_orders: "sample (example_choice k) orders_table = orders_historical"
  by (simp add: sample_def example_choice_def orders_table_def orders_historical_def
      take_rows_def sample_size_eq upt_conv_Cons)

lemma drop_rows_orders: "drop_rows orders_table (df_index orders_historical) = Inr orders_recent"
  by (simp add: drop_rows_def orders_table_def orders_historical_def orders_recent_def
      take_rows_def upt_conv_Cons)

lemma linspace_1_4:
  "linspace 1 4 10 = [1, 13 / 10, 16 / 10, 19 / 10, 22 / 10, 25 / 10, 28 / 10, 31 / 10, 34 / 10, 37 / 10, 4]"
  by (simp add: linspace_def upt_conv_Cons)

lemma orders_histograms:
  "histogram [1, 2, 3, 4] 10 = Inr ([1, 0, 0, 1, 0, 0, 1, 0, 0, 1], linspace 1 4 10)"
  "histogram_edges [5] (linspace 1 4 10) = Inr ([0, 0, 0, 0, 0, 0, 0, 0, 0, 0], linspace 1 4 10)"
  by (simp_all add: histogram_def histogram_edges_def get_outer_edges_def bin_counts_def
      in_bin_def linspace_1_4 upt_conv_Cons)

lemma orders_kld:
  "KLDivergence_detect_drift orders_historical orders_recent 10 (1 / 10) ''amount'' = Inr (False, NaN)"
  by (simp add: KLDivergence_detect_drift_def getitem_def orders_historical_def orders_recent_def
      orders_histograms divide_by_sum_def entropy_def fl_sum_def rel_entr_def fl_greater_def
      signed_inf_def)

lemma orders_kl_table:
  "process_table example_scipy example_files example_choice orders_kl initial_state
     = Inr orders_kl_state"
  by (simp add: process_table_def read_csv_orders sample_orders
      drop_rows_orders process_column_def column_detector_def get_drift_detector_known
      new_KLDivergence_def default_bins_def default_threshold_def orders_kld sanitize_def
      initial_state_def orders_kl_def orders_kl_state_def Let_def)

lemma orders_kl_final:
  "drift_monitoring example_scipy example_files example_choice [orders_kl]
     = Inr (orders_kl_state\<lparr>log := log orders_kl_state @ [DriftStatus (drift_status orders_kl_state)]\<rparr>)"
  by (simp add: drift_monitoring_def orders_kl_table)

lemma orders_kl_run:
  "report_entry (drift_monitoring example_scipy example_files example_choice [orders_kl])
     ''orders.csv'' ''amount'' = Some (False, Float (Fin 0))"
  by (simp add: orders_kl_final report_entry_def orders_kl_state_def)

section \<open>Failure of a load\<close>

lemma process_table_load_error:
  "fs (current_table t) = Inl e \<Longrightarrow> process_table lib fs choice t st = Inl e"
  by (simp add: process_table_def read_csv_def Let_def)

lemma process_tables_append:
  "process_tables lib fs choice (pre @ post) st =
     (case process_tables lib fs choice pre st of
        Inl e \<Rightarrow> Inl e
      | Inr st' \<Rightarrow> process_tables lib fs choice post st')"
  by (induction pre arbitrary: st) (simp_all split: sum.splits)

text \<open>
  Claim C9, as amended. Nothing in the orchestrator catches an exception. If the tables
  configured before a table are processed and the file of that table cannot be read,
  the exception of the load ends the whole run: \<open>drift_monitoring\<close> raises it, whatever
  tables are configured after it, and logs no report, so no entry of any table is emitted.
\<close>

theorem drift_monitoring_load_failure:
  assumes "process_tables lib fs choice pre initial_state = Inr st"
    and "fs (current_table t) = Inl e"
  shows "drift_monitoring lib fs choice (pre @ t # post) = Inl e
         \<and> report_entry (drift_monitoring lib fs choice (pre @ t # post)) tb c = None"
proof -
  have "process_tables lib fs choice (pre @ t # post) initial_state = Inl e"
    using assms by (simp add: process_tables_append process_table_load_error)
  then have "drift_monitoring lib fs choice (pre @ t # post) = Inl e"
    by (simp add: drift_monitoring_def)
  then show ?thesis by (simp add: report_entry_def)
qed

theorem drift_monitoring_load_failure_witness:
  "process_tables example_scipy example_files example_choice [orders_kl] initial_state
     = Inr orders_kl_state
   \<and> example_files (current_table missing_table) = Inl (FileNotFoundError ''missing.csv'')
   \<and> drift_monitoring example_scipy example_files example_choice
         ([orders_kl] @ missing_table # [orders_kl])
       = Inl (FileNotFoundError ''missing.csv'')
   \<and> report_entry (drift_monitoring example_scipy example_files example_choice
         ([orders_kl] @ missing_table # [orders_kl])) ''orders.csv'' ''amount'' = None"
proof -
  have a: "process_tables example_scipy example_files example_choice [orders_kl] initial_state
     = Inr orders_kl_state"
    by (simp add: orders_kl_table)
  have b: "example_files (current_table missing_table) = Inl (FileNotFoundError ''missing.csv'')"
    by (simp add: example_files_def missing_table_def)
  from drift_monitoring_load_failure [OF a b, of "[orders_kl]" "''orders.csv''" "''amount''"] a b
  show ?thesis by blast
qed

text \<open>
  The claim C9 as first stated has the run continue after a failed load. With the missing
  table configured before \<open>orders.csv\<close> the run ends with the exception and reports
  nothing for \<open>orders.csv\<close>, although that table alone is processed and reported.
\<close>

theorem drift_monitoring_continue_counterexample:
  "drift_monitoring example_scipy example_files example_choice [missing_table, orders_kl]
     = Inl (FileNotFoundError ''missing.csv'')
   \<and> report_entry (drift_monitoring example_scipy example_files example_choice [missing_table, orders_kl])
       ''orders.csv'' ''amount'' = None
   \<and> report_entry (drift_monitoring example_scipy example_files example_choice [orders_kl])
       ''orders.csv'' ''amount'' = Some (False, Float (Fin 0))"
proof -
  have "drift_monitoring example_scipy example_files example_choice [missing_table, orders_kl]
     = Inl (FileNotFoundError ''missing.csv'')"
    by (simp add: drift_monitoring_def process_table_load_error example_files_def missing_table_def)
  then show ?thesis using orders_kl_run by (simp add: report_entry_def)
qed

section \<open>Sanitized statistics\<close>

lemma CUSUM_detect_drift_not_Inr:
  "CUSUM_detect_drift h r threshold c \<noteq> Inr res"
  by (simp add: CUSUM_detect_drift_def Series_concat_def Let_def split: sum.splits)

lemma detect_drift_Float:
  assumes "detect_drift lib det c = Inr (d, s)"
  shows "\<exists>x. s = Float x"
proof (cases det)
  case (CUSUM h r threshold)
  with assms show ?thesis
    using CUSUM_detect_drift_not_Inr [of h r threshold c]
    by (cases "CUSUM_detect_drift h r threshold c") auto
qed (use assms in \<open>auto simp: map_sum_def split: sum.splits\<close>)

lemma sanitize_Float:
  "sanitize (Float x) = Inr (Float (if isnan x \<or> isinf x then Fin 0 else x))"
  by (simp add: sanitize_def)

lemma sanitized_finite: "\<exists>r. (if isnan x \<or> isinf x then Fin 0 else x) = Fin r"
  by (cases x) simp_all

lemma all_finite_upd:
  assumes "all_finite rep" "rep t = Some entries"
  shows "all_finite (rep(t \<mapsto> entries(c \<mapsto> (d, Float (Fin r)))))"
  using assms unfolding all_finite_def by (auto split: if_splits)

lemma all_finite_reset: "all_finite rep \<Longrightarrow> all_finite (rep(t \<mapsto> Map.empty))"
  unfolding all_finite_def by (auto split: if_splits)

lemma process_column_Inr:
  assumes det: "column_detector column h r = Inr det"
    and res: "detect_drift lib det (name column) = Inr (d, Float raw)"
    and ent: "drift_status st table = Some entries"
  shows "\<exists>st'. process_column lib table h r column st = Inr st'
           \<and> drift_status st' = (drift_status st)
                (table \<mapsto> entries(name column \<mapsto>
                   (d, Float (if isnan raw \<or> isinf raw then Fin 0 else raw))))"
  using assms by (simp add: process_column_def Let_def sanitize_Float)

lemma process_column_all_finite:
  assumes inv: "all_finite (drift_status st)"
    and run: "process_column lib table h r column st = Inr st'"
  shows "all_finite (drift_status st')"
proof -
  from run obtain det where det: "column_detector column h r = Inr det"
    by (auto simp: process_column_def Let_def split: sum.splits)
  from run det obtain d s where res: "detect_drift lib det (name column) = Inr (d, s)"
    by (auto simp: process_column_def Let_def split: sum.splits)
  from detect_drift_Float [OF res] obtain raw where s: "s = Float raw" by blast
  from run det res obtain entries where ent: "drift_status st table = Some entries"
    by (auto simp: process_column_def Let_def s sanitize_Float split: option.splits)
  from process_column_Inr [OF det res [unfolded s] ent] run
  have eq: "drift_status st' = (drift_status st)
                (table \<mapsto> entries(name column \<mapsto>
                   (d, Float (if isnan raw \<or> isinf raw then Fin 0 else raw))))"
    by auto
  from sanitized_finite [of raw] obtain x where "(if isnan raw \<or> isinf raw then Fin 0 else raw) = Fin x"
    by blast
  then show ?thesis unfolding eq using all_finite_upd [OF inv ent] by simp
qed

lemma process_columns_all_finite:
  "all_finite (drift_status st) \<Longrightarrow> process_columns lib table h r cols st = Inr st'
     \<Longrightarrow> all_finite (drift_status st')"
proof (induction cols arbitrary: st)
  case Nil
  then show ?case by simp
next
  case (Cons column cols)
  from Cons.prems(2) obtain st1 where
    st1: "process_column lib table h r column st = Inr st1"
      "process_columns lib table h r cols st1 = Inr st'"
    by (auto split: sum.splits)
  from process_column_all_finite [OF Cons.prems(1) st1(1)] st1(2) show ?case
    by (rule Cons.IH)
qed

lemma process_table_all_finite:
  assumes inv: "all_finite (drift_status st)"
    and run: "process_table lib fs choice t st = Inr st'"
  shows "all_finite (drift_status st')"
proof -
  let ?st1 = "st\<lparr>drift_status := (drift_status st)(current_table t \<mapsto> Map.empty),
                  log := log st @ [StartedTable (current_table t)]\<rparr>"
  from run obtain df cur where
    cols: "process_columns lib (current_table t) (sample (choice (draws ?st1)) df) cur (columns t)
             (?st1\<lparr>draws := Suc (draws ?st1)\<rparr>) = Inr st'"
    by (auto simp: process_table_def Let_def split: sum.splits)
  have "all_finite (drift_status (?st1\<lparr>draws := Suc (draws ?st1)\<rparr>))"
    using all_finite_reset [OF inv] by simp
  then show ?thesis using cols by (rule process_columns_all_finite)
qed

lemma process_tables_all_finite:
  "all_finite (drift_status st) \<Longrightarrow> process_tables lib fs choice ts st = Inr st'
     \<Longrightarrow> all_finite (drift_status st')"
proof (induction ts arbitrary: st)
  case Nil
  then show ?case by simp
next
  case (Cons t ts)
  from Cons.prems(2) obtain st1 where
    st1: "process_table lib fs choice t st = Inr st1"
      "process_tables lib fs choice ts st1 = Inr st'"
    by (auto split: sum.splits)
  from process_table_all_finite [OF Cons.prems(1) st1(1)] st1(2) show ?case
    by (rule Cons.IH)
qed

lemma drift_monitoring_all_finite:
  assumes "drift_monitoring lib fs choice config = Inr final"
  shows "all_finite (drift_status final)"
proof -
  from assms obtain st where st: "process_tables lib fs choice config initial_state = Inr st"
    "drift_status final = drift_status st"
    by (auto simp: drift_monitoring_def split: sum.splits)
  have "all_finite (drift_status initial_state)"
    by (simp add: all_finite_def initial_state_def)
  from process_tables_all_finite [OF this st(1)] st(2) show ?thesis by simp
qed

text \<open>
  Claim C1. Every statistic of the report that a run logs is a finite float. When the
  detector of a column returns the statistic \<open>raw\<close>, the orchestrator records, under the
  table and the column, the verdict with \<open>0\<close> if \<open>raw\<close> is NaN or an infinity and with
  \<open>raw\<close> itself otherwise. (The code assigns the integer \<open>0\<close>, which Python equates with
  \<open>0.0\<close>.)
\<close>

theorem drift_monitoring_sanitizes:
  "(report_entry (drift_monitoring lib fs choice config) t c = Some (d, s)
      \<longrightarrow> (\<exists>x. s = Float (Fin x)))
   \<and> (column_detector column h r = Inr det
        \<and> detect_drift lib det (name column) = Inr (d', Float raw)
        \<and> drift_status st table = Some entries
      \<longrightarrow> report_entry (process_column lib table h r column st) table (name column)
            = Some (d', Float (if isnan raw \<or> isinf raw then Fin 0 else raw)))"
proof (intro conjI impI)
  assume e: "report_entry (drift_monitoring lib fs choice config) t c = Some (d, s)"
  then obtain final entries where
    f: "drift_monitoring lib fs choice config = Inr final"
      "drift_status final t = Some entries" "entries c = Some (d, s)"
    by (auto simp: report_entry_def split: sum.splits option.splits)
  from drift_monitoring_all_finite [OF f(1)] f(2,3) show "\<exists>x. s = Float (Fin x)"
    unfolding all_finite_def by blast
next
  assume a: "column_detector column h r = Inr det
        \<and> detect_drift lib det (name column) = Inr (d', Float raw)
        \<and> drift_status st table = Some entries"
  then obtain st' where "process_column lib table h r column st = Inr st'"
    "drift_status st' = (drift_status st)
                (table \<mapsto> entries(name column \<mapsto>
                   (d', Float (if isnan raw \<or> isinf raw then Fin 0 else raw))))"
    using process_column_Inr [of column h r det lib d' raw st table entries] by blast
  then show "report_entry (process_column lib table h r column st) table (name column)
            = Some (d', Float (if isnan raw \<or> isinf raw then Fin 0 else raw))"
    by (simp add: report_entry_def)
qed

theorem drift_monitoring_sanitizes_witness:
  "report_entry (drift_monitoring example_scipy example_files example_choice [orders_kl])
     ''orders.csv'' ''amount'' = Some (False, Float (Fin 0))
   \<and> (\<exists>x. Float (Fin 0) = Float (Fin x))
   \<and> column_detector \<lparr>name = ''amount'', method_name = ''kl_divergence'', params = []\<rparr>
         orders_historical orders_recent
       = Inr (KLDivergence orders_historical orders_recent 10 (1 / 10))
   \<and> detect_drift example_scipy (KLDivergence orders_historical orders_recent 10 (1 / 10)) ''amount''
       = Inr (False, Float NaN)
   \<and> drift_status (initial_state\<lparr>drift_status := [''orders.csv'' \<mapsto> Map.empty]\<rparr>) ''orders.csv''
       = Some Map.empty
   \<and> report_entry
         (process_column example_scipy ''orders.csv'' orders_historical orders_recent
            \<lparr>name = ''amount'', method_name = ''kl_divergence'', params = []\<rparr>
            (initial_state\<lparr>drift_status := [''orders.csv'' \<mapsto> Map.empty]\<rparr>))
         ''orders.csv'' ''amount''
       = Some (False, Float (Fin 0))"
proof -
  let ?col = "\<lparr>name = ''amount'', method_name = ''kl_divergence'', params = []\<rparr>"
  let ?det = "KLDivergence orders_historical orders_recent 10 (1 / 10)"
  let ?st = "initial_state\<lparr>drift_status := [''orders.csv'' \<mapsto> Map.empty]\<rparr>"
  have a: "column_detector ?col orders_historical orders_recent = Inr ?det"
    by (simp add: column_detector_def get_drift_detector_known new_KLDivergence_def
        default_bins_def default_threshold_def)
  have b: "detect_drift example_scipy ?det (name ?col) = Inr (False, Float NaN)"
    by (simp add: orders_kld)
  have c: "drift_status ?st ''orders.csv'' = Some Map.empty" by simp
  note inst = drift_monitoring_sanitizes [where lib = example_scipy and fs = example_files
      and choice = example_choice and config = "[orders_kl]" and t = "''orders.csv''"
      and c = "''amount''" and d = False and s = "Float (Fin 0)" and column = ?col
      and h = orders_historical and r = orders_recent and det = ?det and d' = False
      and raw = NaN and st = ?st and table = "''orders.csv''" and entries = Map.empty]
  from inst orders_kl_run a b c show ?thesis by simp
qed

section \<open>The split\<close>












section \<open>Categorical detectors on the split\<close>

lemma getitem_index: "getitem df c = Inr s \<Longrightarrow> s_index s = df_index df"
  by (auto simp: getitem_def split: option.splits)

lemma drop_rows_disjoint:
  assumes "drop_rows df labels = Inr cur"
  shows "set (df_index cur) \<inter> set labels = {}"
proof -
  from assms have "cur = take_rows df
      (filter (\<lambda>i. df_index df ! i \<notin> set labels) [0..<length (df_index df)])"
    by (simp add: drop_rows_def split: if_splits)
  then show ?thesis by (auto simp: take_rows_def)
qed

lemma crosstab_pairs_disjoint:
  assumes "set (s_index a) \<inter> set (s_index b) = {}"
  shows "crosstab_pairs a b = []"
proof -
  have "\<And>l v. (l, v) \<in> set (zip (s_index a) (s_values a)) \<Longrightarrow>
          map_of (zip (s_index b) (s_values b)) l = None"
  proof -
    fix l v assume "(l, v) \<in> set (zip (s_index a) (s_values a))"
    then have "l \<in> set (s_index a)" by (rule set_zip_leftD)
    with assms have "l \<notin> set (s_index b)" by auto
    then have "l \<notin> fst ` set (zip (s_index b) (s_values b))"
      by (auto dest: set_zip_leftD)
    then show "map_of (zip (s_index b) (s_values b)) l = None"
      by (simp add: map_of_eq_None_iff)
  qed
  then show ?thesis by (auto simp: crosstab_pairs_def)
qed

lemma chi2_contingency_empty:
  "chi2_contingency lib [] = Inl (ValueError ''No data; `observed` has size 0.'')"
  by (simp add: chi2_contingency_def table_size_def)

lemma crosstab_split:
  assumes drop: "drop_rows df (df_index hist) = Inr cur"
    and hs: "getitem hist c = Inr hs" and rs: "getitem cur c = Inr rs"
  shows "crosstab hs rs = []"
proof -
  have "set (s_index hs) \<inter> set (s_index rs) = {}"
    using drop_rows_disjoint [OF drop] getitem_index [OF hs] getitem_index [OF rs] by auto
  then show ?thesis by (simp add: crosstab_def crosstab_pairs_disjoint)
qed

text \<open>
  Claim C10. \<open>pd.crosstab\<close> pairs the values of the two columns by row label. The recent
  slice of the orchestrator is the table without the row labels of the historical slice,
  so the two slices share no label, the contingency table of any column of theirs is
  empty, and both \<open>ChiSquaredTest.detect_drift\<close> and \<open>CramersVTest.detect_drift\<close> end
  with an exception: the \<open>ValueError\<close> of the chi-squared routine on a table without data
  (or a \<open>KeyError\<close> when the column does not exist). Neither returns a p-value.
\<close>

theorem categorical_detectors_raise_on_split:
  "drop_rows df (df_index (sample choice df)) = Inr cur \<longrightarrow>
     (\<exists>e. ChiSquaredTest_detect_drift lib (sample choice df) cur alpha c = Inl e)
     \<and> (\<exists>e. CramersVTest_detect_drift lib (sample choice df) cur alpha c = Inl e)
     \<and> (getitem (sample choice df) c = Inr hs \<and> getitem cur c = Inr rs \<longrightarrow>
          crosstab hs rs = []
          \<and> ChiSquaredTest_detect_drift lib (sample choice df) cur alpha c
              = Inl (ValueError ''No data; `observed` has size 0.'')
          \<and> CramersVTest_detect_drift lib (sample choice df) cur alpha c
              = Inl (ValueError ''No data; `observed` has size 0.''))"
proof (intro impI)
  assume drop: "drop_rows df (df_index (sample choice df)) = Inr cur"
  have both: "crosstab hs' rs' = []"
    if "getitem (sample choice df) c = Inr hs'" "getitem cur c = Inr rs'" for hs' rs'
    using crosstab_split [OF drop that] .
  have chi: "\<exists>e. ChiSquaredTest_detect_drift lib (sample choice df) cur alpha c = Inl e"
    by (auto simp: ChiSquaredTest_detect_drift_def both chi2_contingency_empty Let_def
        split: sum.splits)
  have cra: "\<exists>e. CramersVTest_detect_drift lib (sample choice df) cur alpha c = Inl e"
    by (auto simp: CramersVTest_detect_drift_def both chi2_contingency_empty Let_def
        split: sum.splits)
  have exact: "crosstab hs rs = []
          \<and> ChiSquaredTest_detect_drift lib (sample choice df) cur alpha c
              = Inl (ValueError ''No data; `observed` has size 0.'')
          \<and> CramersVTest_detect_drift lib (sample choice df) cur alpha c
              = Inl (ValueError ''No data; `observed` has size 0.'')"
    if "getitem (sample choice df) c = Inr hs \<and> getitem cur c = Inr rs"
    using that both [of hs rs]
    by (simp add: ChiSquaredTest_detect_drift_def CramersVTest_detect_drift_def
        chi2_contingency_empty Let_def)
  from chi cra exact show "(\<exists>e. ChiSquaredTest_detect_drift lib (sample choice df) cur alpha c = Inl e)
     \<and> (\<exists>e. CramersVTest_detect_drift lib (sample choice df) cur alpha c = Inl e)
     \<and> (getitem (sample choice df) c = Inr hs \<and> getitem cur c = Inr rs \<longrightarrow>
          crosstab hs rs = []
          \<and> ChiSquaredTest_detect_drift lib (sample choice df) cur alpha c
              = Inl (ValueError ''No data; `observed` has size 0.'')
          \<and> CramersVTest_detect_drift lib (sample choice df) cur alpha c
              = Inl (ValueError ''No data; `observed` has size 0.''))"
    by blast
qed

theorem categorical_detectors_raise_on_split_witness:
  "drop_rows orders_table (df_index (sample (example_choice 0) orders_table)) = Inr orders_recent
   \<and> getitem (sample (example_choice 0) orders_table) ''amount''
       = Inr \<lparr>s_index = [0, 1, 2, 3], s_values = [Num 1, Num 2, Num 3, Num 4]\<rparr>
   \<and> getitem orders_recent ''amount'' = Inr \<lparr>s_index = [4], s_values = [Num 5]\<rparr>
   \<and> crosstab \<lparr>s_index = [0, 1, 2, 3], s_values = [Num 1, Num 2, Num 3, Num 4]\<rparr>
               \<lparr>s_index = [4], s_values = [Num 5]\<rparr> = []
   \<and> ChiSquaredTest_detect_drift example_scipy (sample (example_choice 0) orders_table)
         orders_recent (5 / 100) ''amount''
       = Inl (ValueError ''No data; `observed` has size 0.'')
   \<and> CramersVTest_detect_drift example_scipy (sample (example_choice 0) orders_table)
         orders_recent (5 / 100) ''amount''
       = Inl (ValueError ''No data; `observed` has size 0.'')"
proof -
  have d: "drop_rows orders_table (df_index (sample (example_choice 0) orders_table)) = Inr orders_recent"
    by (simp add: sample_orders drop_rows_orders)
  have h: "getitem (sample (example_choice 0) orders_table) ''amount''
       = Inr \<lparr>s_index = [0, 1, 2, 3], s_values = [Num 1, Num 2, Num 3, Num 4]\<rparr>"
    by (simp add: sample_orders getitem_def orders_historical_def)
  have r: "getitem orders_recent ''amount'' = Inr \<lparr>s_index = [4], s_values = [Num 5]\<rparr>"
    by (simp add: getitem_def orders_recent_def)
  from categorical_detectors_raise_on_split [where df = orders_table
      and choice = "example_choice 0" and cur = orders_recent and c = "''amount''"
      and hs = "\<lparr>s_index = [0, 1, 2, 3], s_values = [Num 1, Num 2, Num 3, Num 4]\<rparr>"
      and rs = "\<lparr>s_index = [4], s_values = [Num 5]\<rparr>" and lib = example_scipy
      and alpha = "5 / 100"] d h r
  show ?thesis by blast
qed


end
